theory Spec2Isabelle
  imports Main
begin

section \<open>The Marionette executors of wptrunner\<close>

text \<open>
  A shallow embedding of \<^verbatim>\<open>wptrunner/executors/executormarionette.py\<close> (Python 2).
  The module drives a browser through the Marionette client. The client, the logger,
  the test runner's message channel and the scripts sent to the browser are
  collaborators outside the module: what they answer is a parameter of the model, what
  the module does to them is recorded in the state (the log, the messages sent, the
  client calls made).
\<close>

subsection \<open>Exceptions\<close>

text \<open>
  The exception classes the module names in its \<^verbatim>\<open>except\<close> clauses, the ones Python
  raises by itself at the places modelled below, and \<open>OtherException\<close> for every other
  class that derives from \<^verbatim>\<open>Exception\<close>. Exceptions outside \<^verbatim>\<open>Exception\<close>
  (\<^verbatim>\<open>SystemExit\<close>, \<^verbatim>\<open>KeyboardInterrupt\<close>, \<^verbatim>\<open>GeneratorExit\<close>) are not modelled, so
  \<^verbatim>\<open>except Exception\<close> is the last case of a case distinction. An exception carries
  its \<^verbatim>\<open>message\<close> attribute, a string (empty when the attribute is not set).
\<close>

datatype exc_class =
    ScriptTimeoutException
  | SocketTimeout
  | InvalidResponseException
  | IOError
  | AttributeError
  | AssertionError
  | TypeError
  | IndexError
  | NoSuchWindowException
  | OtherException

datatype exn = Exn (exc_cls: exc_class) (message: string)

text \<open>
  \<^verbatim>\<open>except C\<close> matches an instance of \<^verbatim>\<open>C\<close> or of a subclass. The one subclass
  relation among the modelled classes: \<^verbatim>\<open>socket.timeout\<close> derives from
  \<^verbatim>\<open>socket.error\<close>, which derives from \<^verbatim>\<open>IOError\<close>.
\<close>

definition isinstance :: "exn \<Rightarrow> exc_class \<Rightarrow> bool" where
  "isinstance e c \<longleftrightarrow> exc_cls e = c \<or> (c = IOError \<and> exc_cls e = SocketTimeout)"

text \<open>What a call into a collaborator does: it returns a value or raises.\<close>

datatype 'a call = Returns 'a | Raises exn

subsection \<open>The logger and the runner's message channel\<close>

datatype level = DEBUG | INFO | WARNING | ERROR | CRITICAL

text \<open>
  A log entry is the level and the text as written in the source; where the source
  formats values into the text (\<^verbatim>\<open>"... %s" % e\<close>) the entry keeps the format string.
  \<open>logged\<close> and \<open>sent\<close> grow at the end.
\<close>

record world =
  logged :: "(level \<times> string) list"
  sent :: "string list"

definition logger :: "level \<Rightarrow> string \<Rightarrow> 'a world_scheme \<Rightarrow> 'a world_scheme" where
  "logger lv msg w = w\<lparr>logged := logged w @ [(lv, msg)]\<rparr>"

definition send_message :: "string \<Rightarrow> 'a world_scheme \<Rightarrow> 'a world_scheme" where
  "send_message msg w = w\<lparr>sent := sent w @ [msg]\<rparr>"

subsection \<open>MarionetteProtocol\<close>

text \<open>
  The attribute \<^verbatim>\<open>self.marionette\<close> of a protocol object: \<^verbatim>\<open>__init__\<close> binds it to
  \<^verbatim>\<open>None\<close>, \<^verbatim>\<open>setup\<close> to a client, \<^verbatim>\<open>teardown\<close> deletes it.
\<close>

datatype handle_attr = Unbound | BoundNone | BoundClient

datatype client_call =
    WaitForPort
  | StartSession
  | DeleteSession
  | Navigate
  | ExecuteScript
  | CurrentWindowHandle

record protocol = world +
  marionette :: handle_attr
  client_calls :: "client_call list"

text \<open>
  What the client answers in one run of a protocol method. \<open>wait_for_port i\<close> is the
  answer of the \<open>i\<close>-th call of \<^verbatim>\<open>wait_for_port(60)\<close>.
\<close>

record client_env =
  wait_for_port :: "nat \<Rightarrow> bool"
  start_session :: "unit call"
  delete_session :: "unit call"
  navigate :: "unit call"
  execute_script :: "unit call"
  current_window_handle :: "string call"

text \<open>
  \<^verbatim>\<open>self.marionette.m(...)\<close>: the attribute lookup raises \<^verbatim>\<open>AttributeError\<close> when the
  attribute is deleted or bound to \<^verbatim>\<open>None\<close>; otherwise the client is called (the call
  is recorded) and answers \<open>r\<close>.
\<close>

definition client :: "client_call \<Rightarrow> 'a call \<Rightarrow> protocol \<Rightarrow> 'a call \<times> protocol" where
  "client c r p =
     (case marionette p of
        Unbound \<Rightarrow> (Raises (Exn AttributeError ''marionette''), p)
      | BoundNone \<Rightarrow> (Raises (Exn AttributeError ''NoneType''), p)
      | BoundClient \<Rightarrow> (r, p\<lparr>client_calls := client_calls p @ [c]\<rparr>))"

text \<open>
  The loop of \<^verbatim>\<open>setup\<close> (lines 68 to 72): poll until the port is open or, outside a
  debugger, until the first poll has failed. \<open>None\<close>: the loop never ends.
\<close>

partial_function (option) wait_for_connection ::
  "(nat \<Rightarrow> bool) \<Rightarrow> string list option \<Rightarrow> nat \<Rightarrow> (bool \<times> nat) option" where
  "wait_for_connection polls debug_args i =
     (if polls i \<or> debug_args = None then Some (polls i, Suc i)
      else wait_for_connection polls debug_args (Suc i))"

text \<open>\<^verbatim>\<open>after_connect\<close> (lines 115 to 128): the state, and the exception that leaves it.\<close>

definition MarionetteProtocol_after_connect ::
  "client_env \<Rightarrow> protocol \<Rightarrow> protocol \<times> exn option" where
  "MarionetteProtocol_after_connect env p =
     (let p1 = logger DEBUG ''Loading %s'' p;
          (nav, p2) = client Navigate (navigate env) p1;
          p3 = (case nav of
                  Raises e \<Rightarrow> logger CRITICAL ''Loading initial page %s failed.'' p2
                | Returns u \<Rightarrow> p2);
          (scr, p4) = client ExecuteScript (execute_script env) p3
      in case scr of Raises e \<Rightarrow> (p4, Some e) | Returns u \<Rightarrow> (p4, None))"

text \<open>
  \<^verbatim>\<open>setup\<close> (lines 59 to 96). \<open>debug_args\<close> is the executor's; \<^verbatim>\<open>Protocol.setup\<close> of the
  base class and the client's constructor are outside the module and taken to return.
  \<open>None\<close>: \<^verbatim>\<open>setup\<close> does not return.
\<close>

definition MarionetteProtocol_setup ::
  "client_env \<Rightarrow> string list option \<Rightarrow> protocol \<Rightarrow> protocol option" where
  "MarionetteProtocol_setup env debug_args p =
     (let p1 = logger DEBUG ''Connecting to marionette on port %i'' p;
          p2 = p1\<lparr>marionette := BoundClient\<rparr>;
          p3 = logger DEBUG ''Waiting for Marionette connection'' p2
      in case wait_for_connection (wait_for_port env) debug_args 0 of
           None \<Rightarrow> None
         | Some (success, n) \<Rightarrow>
             Some
               (let p4 = p3\<lparr>client_calls := client_calls p3 @ replicate n WaitForPort\<rparr>;
                    (session_started, p5) =
                      (if success then
                         (let p4a = logger DEBUG ''Starting Marionette session'' p4;
                              (r, p4b) = client StartSession (start_session env) p4a
                          in case r of
                               Raises e \<Rightarrow>
                                 (False, logger WARNING ''Starting marionette session failed: %s'' p4b)
                             | Returns u \<Rightarrow>
                                 (True, logger DEBUG ''Marionette session started'' p4b))
                       else (False, p4))
                in if \<not> success \<or> \<not> session_started then
                     send_message ''init_failed''
                       (logger WARNING ''Failed to connect to Marionette'' p5)
                   else
                     (case MarionetteProtocol_after_connect env p5 of
                        (p6, Some e) \<Rightarrow>
                          send_message ''init_failed''
                            (logger ERROR ''traceback.format_exc()''
                               (logger WARNING ''Post-connection steps failed'' p6))
                      | (p6, None) \<Rightarrow> send_message ''init_succeeded'' p6)))"

text \<open>
  \<^verbatim>\<open>teardown\<close> (lines 98 to 104): whatever \<^verbatim>\<open>delete_session\<close> raises is passed over;
  \<^verbatim>\<open>del self.marionette\<close> stands outside the \<^verbatim>\<open>try\<close> and raises \<^verbatim>\<open>AttributeError\<close>
  when the attribute is not bound.
\<close>

definition MarionetteProtocol_teardown :: "client_env \<Rightarrow> protocol \<Rightarrow> exn + protocol" where
  "MarionetteProtocol_teardown env p =
     (let (r, p1) = client DeleteSession (delete_session env) p;
          p2 = (case r of Raises e \<Rightarrow> p1 | Returns u \<Rightarrow> p1)
      in case marionette p2 of
           Unbound \<Rightarrow> Inl (Exn AttributeError ''marionette'')
         | BoundNone \<Rightarrow> Inr (p2\<lparr>marionette := Unbound\<rparr>)
         | BoundClient \<Rightarrow> Inr (p2\<lparr>marionette := Unbound\<rparr>))"

text \<open>\<^verbatim>\<open>is_alive\<close> (lines 106 to 113).\<close>

definition MarionetteProtocol_is_alive :: "client_env \<Rightarrow> protocol \<Rightarrow> bool" where
  "MarionetteProtocol_is_alive env p =
     (case fst (client CurrentWindowHandle (current_window_handle env) p) of
        Raises e \<Rightarrow> False
      | Returns h \<Rightarrow> True)"

text \<open>
  \<^verbatim>\<open>MarionetteWebDriverExecutor.setup\<close> (lines 326 to 341); \<open>start\<close> is what
  \<^verbatim>\<open>self.driver.start()\<close> does. The base class's \<^verbatim>\<open>setup\<close> and the constructor of the
  local server are outside the module and taken to return.
\<close>

definition MarionetteWebDriverExecutor_setup :: "unit call \<Rightarrow> world \<Rightarrow> world" where
  "MarionetteWebDriverExecutor_setup start w =
     (case start of
        Raises e \<Rightarrow> send_message ''init_failed'' (logger ERROR ''traceback.format_exc(e)'' w)
      | Returns u \<Rightarrow> send_message ''init_succeeded'' (logger INFO ''Webdriver started'' w))"

subsection \<open>MarionetteRun\<close>

text \<open>
  The result slot \<^verbatim>\<open>self.result\<close> holds \<^verbatim>\<open>None\<close> or a pair \<^verbatim>\<open>(success, data)\<close>:
  \<^verbatim>\<open>(True, payload)\<close>, where the payload is what the remote call returned, or
  \<^verbatim>\<open>(False, (status, detail))\<close>. The detail is a Python value: \<^verbatim>\<open>None\<close>, a string or an
  exception object.
\<close>

datatype detail = PyNone | PyStr string | PyExc exn

datatype 'v data = Payload 'v | Status string detail

type_synonym 'v result = "bool \<times> 'v data"

text \<open>
  What \<^verbatim>\<open>run\<close> hands to its caller: the sentinel \<^verbatim>\<open>Stop\<close> of the test runner, or the
  content of the result slot.
\<close>

datatype 'v run_return = Stop | Result "'v result option"

text \<open>
  What the remote call \<^verbatim>\<open>self.func(self.marionette, self.url, self.timeout)\<close> does: it
  returns a payload, it raises (the string is what \<^verbatim>\<open>traceback.format_exc\<close> gives in the
  handler), or it never comes back.
\<close>

datatype 'v func_call = FuncReturns 'v | FuncRaises exn string | FuncHangs

text \<open>
  The surroundings of one call of \<^verbatim>\<open>run\<close>. \<open>InvalidResponseException_rebound\<close> is module
  state: whether \<^verbatim>\<open>marionette.errors.InvalidResponseException\<close> no longer names the class
  but an exception instance. Line 151, \<^verbatim>\<open>except IOError, marionette.errors.InvalidResponseException:\<close>,
  is Python 2's \<^verbatim>\<open>except CLASS, TARGET\<close>: it catches \<^verbatim>\<open>IOError\<close> only and assigns the
  caught instance to the target. A tuple of classes that holds an instance matches
  nothing through that member.
\<close>

record 'v run_env =
  set_script_timeout :: "unit call"
  func :: "'v func_call"
  InvalidResponseException_rebound :: bool

definition extra_timeout :: int where
  "extra_timeout = 5"

text \<open>
  Two threads run \<^verbatim>\<open>run\<close> (lines 163 to 169) and \<^verbatim>\<open>_run\<close> (lines 171 to 190) side by
  side. Reading and writing an attribute and setting the flag are atomic in CPython; a
  thread switch can fall between any two of them. Each thread has a program counter,
  named after the line it is about to execute.
\<close>

datatype 'v sup_pc =
    L163_wait "int option"
  | L164_check bool
  | L166_assert bool
  | L167_store
  | L169_return
  | Returned "'v run_return"
  | Raised exn

datatype wrk_pc = NotStarted | L173_call | L190_set | Finished

datatype remote_call = SetScriptTimeout int | ThreadStart | Func

record 'v run_state = world +
  result :: "'v result option"
  result_flag :: bool
  supervisor :: "'v sup_pc"
  worker :: wrk_pc
  remote_calls :: "remote_call list"
  rebound :: bool

text \<open>
  Lines 141 to 161 of \<^verbatim>\<open>run\<close>, before the second thread exists: set the script timeout,
  start the worker, compute the bound of the wait. The state it leaves is the start of
  the concurrent part.
\<close>

definition MarionetteRun_run_start :: "'v run_env \<Rightarrow> int option \<Rightarrow> 'v run_state" where
  "MarionetteRun_run_start env timeout =
     (let ms = (case timeout of
                  Some t \<Rightarrow> (t + extra_timeout) * 1000
                | None \<Rightarrow> 2 ^ 31 - 1);
          s0 = \<lparr>logged = [], sent = [], result = None, result_flag = False,
                supervisor = L163_wait None, worker = NotStarted,
                remote_calls = [SetScriptTimeout ms],
                rebound = InvalidResponseException_rebound env\<rparr>
      in case set_script_timeout env of
           Raises e \<Rightarrow>
             if isinstance e IOError then
               (logger ERROR ''Lost marionette connection before starting test'' s0)
                 \<lparr>supervisor := Returned Stop, rebound := True\<rparr>
             else s0\<lparr>supervisor := Raised e\<rparr>
         | Returns u \<Rightarrow>
             s0\<lparr>worker := L173_call,
                remote_calls := remote_calls s0 @ [ThreadStart],
                supervisor :=
                  L163_wait (case timeout of
                               Some t \<Rightarrow> Some (t + 2 * extra_timeout)
                             | None \<Rightarrow> None)\<rparr>)"

text \<open>
  The body of \<^verbatim>\<open>_run\<close> up to the \<^verbatim>\<open>finally\<close>: what it logs and the value it assigns to
  \<^verbatim>\<open>self.result\<close>; \<open>None\<close> when the remote call never comes back. The last handler
  builds \<^verbatim>\<open>message\<close> (lines 183 to 186) and stores the exception object (line 187).
\<close>

definition MarionetteRun__run ::
  "bool \<Rightarrow> 'v func_call \<Rightarrow> ((level \<times> string) list \<times> 'v result) option" where
  "MarionetteRun__run irx_rebound f =
     (case f of
        FuncReturns v \<Rightarrow> Some ([], (True, Payload v))
      | FuncRaises e trace \<Rightarrow>
          Some
            (if isinstance e ScriptTimeoutException then
               ([(DEBUG, ''Got a marionette timeout'')],
                (False, Status ''EXTERNAL-TIMEOUT'' PyNone))
             else if isinstance e SocketTimeout
                     \<or> (\<not> irx_rebound \<and> isinstance e InvalidResponseException)
                     \<or> isinstance e IOError then
               ([], (False, Status ''CRASH'' PyNone))
             else
               (let message0 = message e;
                    message1 = (if message0 \<noteq> [] then message0 @ [CHR 0x0A] else message0);
                    message2 = message1 @ trace
                in ([], (False, Status ''ERROR'' (PyExc e)))))
      | FuncHangs \<Rightarrow> None)"

text \<open>
  The scheduler's choices: the supervisor moves, the worker moves, or the bound of the
  wait runs out. A thread that cannot move (the supervisor in a wait whose flag is not
  set, the worker inside a call that never comes back, a thread that has ended) stays
  where it is.
\<close>

datatype event = Sup | Wrk | Expire

fun step :: "'v run_env \<Rightarrow> event \<Rightarrow> 'v run_state \<Rightarrow> 'v run_state" where
  "step env Expire s =
     (case supervisor s of
        L163_wait (Some t) \<Rightarrow> s\<lparr>supervisor := L164_check (result_flag s)\<rparr>
      | _ \<Rightarrow> s)"
| "step env Sup s =
     (case supervisor s of
        L163_wait t \<Rightarrow> if result_flag s then s\<lparr>supervisor := L164_check True\<rparr> else s
      | L164_check flag \<Rightarrow>
          if result s = None then
            (logger DEBUG ''Timed out waiting for a result'' s)\<lparr>supervisor := L166_assert flag\<rparr>
          else s\<lparr>supervisor := L169_return\<rparr>
      | L166_assert flag \<Rightarrow>
          if flag then s\<lparr>supervisor := Raised (Exn AssertionError [])\<rparr>
          else s\<lparr>supervisor := L167_store\<rparr>
      | L167_store \<Rightarrow>
          s\<lparr>result := Some (False, Status ''EXTERNAL-TIMEOUT'' PyNone),
            supervisor := L169_return\<rparr>
      | L169_return \<Rightarrow> s\<lparr>supervisor := Returned (Result (result s))\<rparr>
      | Returned r \<Rightarrow> s
      | Raised e \<Rightarrow> s)"
| "step env Wrk s =
     (case worker s of
        NotStarted \<Rightarrow> s
      | L173_call \<Rightarrow>
          (case MarionetteRun__run (rebound s) (func env) of
             None \<Rightarrow> s
           | Some (entries, r) \<Rightarrow>
               s\<lparr>logged := logged s @ entries, result := Some r, worker := L190_set,
                 remote_calls := remote_calls s @ [Func]\<rparr>)
      | L190_set \<Rightarrow> s\<lparr>result_flag := True, worker := Finished\<rparr>
      | Finished \<Rightarrow> s)"

fun exec :: "'v run_env \<Rightarrow> event list \<Rightarrow> 'v run_state \<Rightarrow> 'v run_state" where
  "exec env [] s = s"
| "exec env (ev # evs) s = exec env evs (step env ev s)"

text \<open>\<^verbatim>\<open>run\<close> under a schedule: the state after the schedule's events.\<close>

definition MarionetteRun_run ::
  "'v run_env \<Rightarrow> int option \<Rightarrow> event list \<Rightarrow> 'v run_state" where
  "MarionetteRun_run env timeout sched = exec env sched (MarionetteRun_run_start env timeout)"

text \<open>
  \<^verbatim>\<open>MarionetteTestharnessExecutor.do_test\<close> (lines 212 to 223): the bound it gives to
  \<^verbatim>\<open>MarionetteRun\<close>, and what it makes of the value \<^verbatim>\<open>run\<close> returned. The result
  converter and \<^verbatim>\<open>test.result_cls\<close> are collaborators; \<^verbatim>\<open>result_cls\<close> receives the
  data it is applied to with \<^verbatim>\<open>*data\<close>. The tuple assignment \<^verbatim>\<open>success, data = ...\<close>
  raises \<^verbatim>\<open>TypeError\<close> on a value that is no pair.
\<close>

definition MarionetteTestharnessExecutor_timeout ::
  "int \<Rightarrow> int \<Rightarrow> string list option \<Rightarrow> int option" where
  "MarionetteTestharnessExecutor_timeout test_timeout timeout_multiplier debug_args =
     (if debug_args = None then Some (test_timeout * timeout_multiplier) else None)"

definition MarionetteTestharnessExecutor_do_test ::
  "('v data \<Rightarrow> 'r \<times> 's list) \<Rightarrow> ('v data \<Rightarrow> 'r) \<Rightarrow> 'v run_return \<Rightarrow> exn + 'r \<times> 's list" where
  "MarionetteTestharnessExecutor_do_test convert_result result_cls ret =
     (case ret of
        Stop \<Rightarrow> Inl (Exn TypeError ''not iterable'')
      | Result None \<Rightarrow> Inl (Exn TypeError ''not iterable'')
      | Result (Some (success, d)) \<Rightarrow>
          Inr (if success then convert_result d else (result_cls d, [])))"

subsection \<open>MarionetteRefTestExecutor\<close>

text \<open>
  The executor's flag \<^verbatim>\<open>has_window\<close> and the part of the browser that \<^verbatim>\<open>do_test\<close>
  touches: the ordered list \<^verbatim>\<open>window_handles\<close>, the window that is the current context,
  and the handle the next new window gets.
\<close>

record reftest_executor =
  has_window :: bool
  window_handles :: "nat list"
  current_window :: nat
  next_handle :: nat

text \<open>
  Modelled from the spec: the Marionette client and the script \<^verbatim>\<open>reftest.js\<close> are not
  part of the module. \<^verbatim>\<open>close()\<close> closes the window that is the current context and
  fails when that window does not exist.
\<close>

definition marionette_close :: "reftest_executor \<Rightarrow> exn + reftest_executor" where
  "marionette_close s =
     (if current_window s \<in> set (window_handles s) then
        Inr (s\<lparr>window_handles := remove1 (current_window s) (window_handles s)\<rparr>)
      else Inl (Exn NoSuchWindowException []))"

text \<open>
  Modelled from the spec: \<^verbatim>\<open>switch_to_window(window_handles[-1])\<close> makes the window
  opened last the current context; indexing an empty list raises \<^verbatim>\<open>IndexError\<close>.
\<close>

definition switch_to_last_window :: "reftest_executor \<Rightarrow> exn + reftest_executor" where
  "switch_to_last_window s =
     (if window_handles s = [] then Inl (Exn IndexError ''list index out of range'')
      else Inr (s\<lparr>current_window := last (window_handles s)\<rparr>))"

text \<open>
  Modelled from the spec: \<^verbatim>\<open>execute_script(self.script)\<close> runs the reference-test driver
  script in the current context; the script opens one new window, which comes last in
  \<^verbatim>\<open>window_handles\<close>. It fails when the current context does not exist.
\<close>

definition execute_reftest_script :: "reftest_executor \<Rightarrow> exn + reftest_executor" where
  "execute_reftest_script s =
     (if current_window s \<in> set (window_handles s) then
        Inr (s\<lparr>window_handles := window_handles s @ [next_handle s],
               next_handle := Suc (next_handle s)\<rparr>)
      else Inl (Exn NoSuchWindowException []))"

text \<open>Lines 268 to 272 of \<^verbatim>\<open>do_test\<close>.\<close>

definition close_previous_window :: "bool \<Rightarrow> reftest_executor \<Rightarrow> exn + reftest_executor" where
  "close_previous_window close_after_done s =
     (if close_after_done \<and> has_window s then
        (case marionette_close s of
           Inl e \<Rightarrow> Inl e
         | Inr s1 \<Rightarrow>
             (case switch_to_last_window s1 of
                Inl e \<Rightarrow> Inl e
              | Inr s2 \<Rightarrow> Inr (s2\<lparr>has_window := False\<rparr>)))
      else Inr s)"

text \<open>Lines 274 to 277 of \<^verbatim>\<open>do_test\<close>.\<close>

definition open_test_window :: "reftest_executor \<Rightarrow> exn + reftest_executor" where
  "open_test_window s =
     (if \<not> has_window s then
        (case execute_reftest_script s of
           Inl e \<Rightarrow> Inl e
         | Inr s1 \<Rightarrow>
             (case switch_to_last_window s1 of
                Inl e \<Rightarrow> Inl e
              | Inr s2 \<Rightarrow> Inr (s2\<lparr>has_window := True\<rparr>)))
      else Inr s)"

text \<open>
  \<^verbatim>\<open>do_test\<close> (lines 267 to 281). \<open>run_test\<close> stands for
  \<^verbatim>\<open>self.convert_result(test, self.implementation.run_test(test))\<close>, the work of the
  reference-test implementation, which loads pages in the current window and opens or
  closes none.
\<close>

definition MarionetteRefTestExecutor_do_test ::
  "bool \<Rightarrow> ('t \<Rightarrow> 'r) \<Rightarrow> 't \<Rightarrow> reftest_executor \<Rightarrow> exn + reftest_executor \<times> 'r" where
  "MarionetteRefTestExecutor_do_test close_after_done run_test test s =
     (case close_previous_window close_after_done s of
        Inl e \<Rightarrow> Inl e
      | Inr s1 \<Rightarrow>
          (case open_test_window s1 of
             Inl e \<Rightarrow> Inl e
           | Inr s2 \<Rightarrow> Inr (s2, run_test test)))"

text \<open>
  A sequence of \<^verbatim>\<open>do_test\<close> calls on one executor. For every call it gives the state
  between the two blocks of \<^verbatim>\<open>do_test\<close> and the state the call leaves.
\<close>

fun do_tests ::
  "bool \<Rightarrow> ('t \<Rightarrow> 'r) \<Rightarrow> 't list \<Rightarrow> reftest_executor \<Rightarrow>
     exn + (reftest_executor \<times> reftest_executor) list" where
  "do_tests close_after_done run_test [] s = Inr []"
| "do_tests close_after_done run_test (t # ts) s =
     (case close_previous_window close_after_done s of
        Inl e \<Rightarrow> Inl e
      | Inr s1 \<Rightarrow>
          (case MarionetteRefTestExecutor_do_test close_after_done run_test t s of
             Inl e \<Rightarrow> Inl e
           | Inr (s2, r) \<Rightarrow>
               (case do_tests close_after_done run_test ts s2 of
                  Inl e \<Rightarrow> Inl e
                | Inr ps \<Rightarrow> Inr ((s1, s2) # ps))))"

text \<open>
  The windows \<^verbatim>\<open>do_test\<close> has opened since the state \<open>s0\<close> and that are still open.
\<close>

definition tracked_windows :: "reftest_executor \<Rightarrow> reftest_executor \<Rightarrow> nat list" where
  "tracked_windows s0 s = filter (\<lambda>h. h \<notin> set (window_handles s0)) (window_handles s)"

text \<open>
  A new executor on a live browser: no tracked window, the current context is one of
  the browser's windows, and new handles are new.
\<close>

definition new_executor :: "reftest_executor \<Rightarrow> bool" where
  "new_executor s0 \<longleftrightarrow>
     \<not> has_window s0 \<and> current_window s0 \<in> set (window_handles s0)
     \<and> (\<forall>h \<in> set (window_handles s0). h < next_handle s0)"

text \<open>
  The tracking invariant: at most one tracked window; the flag says whether there is
  one; when it is set, the tracked window is the current context.
\<close>

definition window_tracking :: "reftest_executor \<Rightarrow> reftest_executor \<Rightarrow> bool" where
  "window_tracking s0 s \<longleftrightarrow>
     length (tracked_windows s0 s) \<le> 1
     \<and> (has_window s \<longleftrightarrow> tracked_windows s0 s \<noteq> [])
     \<and> (if has_window s
        then current_window s \<in> set (window_handles s) \<and> tracked_windows s0 s = [current_window s]
        else True)"

subsection \<open>Concrete surroundings\<close>

text \<open>A protocol object as \<^verbatim>\<open>__init__\<close> leaves it (lines 52 to 57).\<close>

definition MarionetteProtocol_init :: protocol where
  "MarionetteProtocol_init =
     \<lparr>logged = [], sent = [], marionette = BoundNone, client_calls = []\<rparr>"

definition never_open :: "nat \<Rightarrow> bool" where
  "never_open i = False"

definition open_at_third_poll :: "nat \<Rightarrow> bool" where
  "open_at_third_poll i = (2 \<le> i)"

text \<open>A browser whose port never opens and whose every call fails.\<close>

definition dead_client :: client_env where
  "dead_client =
     \<lparr>wait_for_port = never_open,
      start_session = Raises (Exn IOError ''closed''),
      delete_session = Raises (Exn IOError ''closed''),
      navigate = Raises (Exn IOError ''closed''),
      execute_script = Raises (Exn IOError ''closed''),
      current_window_handle = Raises (Exn IOError ''closed'')\<rparr>"

text \<open>A healthy browser whose port opens at the third poll.\<close>

definition live_client :: client_env where
  "live_client =
     \<lparr>wait_for_port = open_at_third_poll,
      start_session = Returns (),
      delete_session = Returns (),
      navigate = Returns (),
      execute_script = Returns (),
      current_window_handle = Returns ''window-1''\<rparr>"

text \<open>A run whose remote call returns the payload 7.\<close>

definition returning_run :: "nat run_env" where
  "returning_run =
     \<lparr>set_script_timeout = Returns (), func = FuncReturns 7,
      InvalidResponseException_rebound = False\<rparr>"

text \<open>A run whose remote call never comes back.\<close>

definition hanging_run :: "nat run_env" where
  "hanging_run =
     \<lparr>set_script_timeout = Returns (), func = FuncHangs,
      InvalidResponseException_rebound = False\<rparr>"

text \<open>A run whose connection is lost before the test starts.\<close>

definition lost_run :: "nat run_env" where
  "lost_run =
     \<lparr>set_script_timeout = Raises (Exn IOError ''Connection reset by peer''),
      func = FuncReturns 7, InvalidResponseException_rebound = False\<rparr>"

text \<open>A new reference-test executor on a browser with the one window 0.\<close>

definition one_window :: reftest_executor where
  "one_window = \<lparr>has_window = False, window_handles = [0], current_window = 0, next_handle = 1\<rparr>"

text \<open>A port that is open at the first poll.\<close>

definition always_open :: "nat \<Rightarrow> bool" where
  "always_open i = True"

text \<open>A browser that connects and starts a session but cannot load the runner page.\<close>

definition unreachable_page_client :: client_env where
  "unreachable_page_client =
     \<lparr>wait_for_port = always_open,
      start_session = Returns (),
      delete_session = Returns (),
      navigate = Raises (Exn OtherException ''Error loading page''),
      execute_script = Returns (),
      current_window_handle = Returns ''window-1''\<rparr>"

text \<open>A browser in which the script that sets the document title fails.\<close>

definition untitled_client :: client_env where
  "untitled_client =
     \<lparr>wait_for_port = always_open,
      start_session = Returns (),
      delete_session = Returns (),
      navigate = Returns (),
      execute_script = Raises (Exn OtherException ''JavaScript error''),
      current_window_handle = Returns ''window-1''\<rparr>"

section \<open>Properties\<close>

subsection \<open>The polling loop of the protocol's setup\<close>

lemma wait_for_connection_returns:
  "polls (i + k) \<or> debug_args = None \<Longrightarrow> \<exists>b n. wait_for_connection polls debug_args i = Some (b, n)"
proof (induction k arbitrary: i)
  case 0
  then show ?case by (subst wait_for_connection.simps) auto
next
  case (Suc k)
  show ?case
  proof (cases "polls i \<or> debug_args = None")
    case True
    then show ?thesis by (subst wait_for_connection.simps) auto
  next
    case False
    from Suc.prems have "polls (Suc i + k) \<or> debug_args = None" by simp
    then obtain b n where "wait_for_connection polls debug_args (Suc i) = Some (b, n)"
      using Suc.IH by blast
    with False show ?thesis by (subst wait_for_connection.simps) auto
  qed
qed

lemma wait_for_connection_success:
  assumes ret: "wait_for_connection polls debug_args i = Some r"
  shows "i < snd r \<and> fst r = polls (snd r - 1) \<and> (debug_args = None \<or> fst r)"
proof (rule wait_for_connection.raw_induct
    [where P = "\<lambda>polls debug_args i r. i < snd r \<and> fst r = polls (snd r - 1) \<and> (debug_args = None \<or> fst r)",
      OF _ ret])
  fix f and polls :: "nat \<Rightarrow> bool" and debug_args :: "string list option" and i r
  assume IH: "\<And>polls debug_args i r. f polls debug_args i = Some r \<Longrightarrow>
        i < snd r \<and> fst r = polls (snd r - 1) \<and> (debug_args = None \<or> fst r)"
    and eq: "(if polls i \<or> debug_args = None then Some (polls i, Suc i)
       else f polls debug_args (Suc i)) = Some r"
  show "i < snd r \<and> fst r = polls (snd r - 1) \<and> (debug_args = None \<or> fst r)"
  proof (cases "polls i \<or> debug_args = None")
    case True
    with eq show ?thesis by auto
  next
    case False
    with eq have "f polls debug_args (Suc i) = Some r" by simp
    then have "Suc i < snd r \<and> fst r = polls (snd r - 1) \<and> (debug_args = None \<or> fst r)"
      by (rule IH)
    then show ?thesis by auto
  qed
qed

lemma wait_for_connection_diverges:
  assumes "debug_args \<noteq> None" and "\<forall>j. \<not> polls j"
  shows "wait_for_connection polls debug_args i = None"
proof (cases "wait_for_connection polls debug_args i")
  case None
  then show ?thesis .
next
  case (Some r)
  then have "debug_args = None \<or> fst r" and "fst r = polls (snd r - 1)"
    using wait_for_connection_success by blast+
  with assms show ?thesis by simp
qed

lemma wait_for_connection_None_iff:
  "wait_for_connection polls debug_args 0 = None \<longleftrightarrow> debug_args \<noteq> None \<and> (\<forall>j. \<not> polls j)"
proof
  assume none: "wait_for_connection polls debug_args 0 = None"
  show "debug_args \<noteq> None \<and> (\<forall>j. \<not> polls j)"
  proof (rule ccontr)
    assume "\<not> (debug_args \<noteq> None \<and> (\<forall>j. \<not> polls j))"
    then obtain k where "polls (0 + k) \<or> debug_args = None" by auto
    then have "\<exists>b n. wait_for_connection polls debug_args 0 = Some (b, n)"
      by (rule wait_for_connection_returns)
    with none show False by simp
  qed
next
  assume "debug_args \<noteq> None \<and> (\<forall>j. \<not> polls j)"
  then show "wait_for_connection polls debug_args 0 = None"
    by (simp add: wait_for_connection_diverges)
qed

lemma wait_for_connection_first_poll:
  "wait_for_connection polls None 0 = Some (polls 0, Suc 0)"
  by (subst wait_for_connection.simps) simp

subsection \<open>Setup signalling\<close>

lemma setup_sent:
  assumes "wait_for_connection (wait_for_port env) debug_args 0 = Some (success, n)"
  shows "\<exists>p'. MarionetteProtocol_setup env debug_args p = Some p' \<and>
     sent p' = sent p @
       [if success \<and> start_session env = Returns () \<and> execute_script env = Returns ()
        then ''init_succeeded'' else ''init_failed'']"
  using assms
  by (cases "start_session env"; cases "navigate env"; cases "execute_script env")
     (simp_all add: MarionetteProtocol_setup_def MarionetteProtocol_after_connect_def
        Let_def client_def logger_def send_message_def)

lemma setup_logged_hook:
  assumes "wait_for_connection (wait_for_port env) debug_args 0 = Some (True, n)"
    and "start_session env = Returns ()"
  shows "\<exists>p'. MarionetteProtocol_setup env debug_args p = Some p' \<and>
     logged p' = logged p @
       [(DEBUG, ''Connecting to marionette on port %i''),
        (DEBUG, ''Waiting for Marionette connection''),
        (DEBUG, ''Starting Marionette session''),
        (DEBUG, ''Marionette session started''),
        (DEBUG, ''Loading %s'')] @
       (case navigate env of Raises e \<Rightarrow> [(CRITICAL, ''Loading initial page %s failed.'')] | Returns u \<Rightarrow> []) @
       (case execute_script env of
          Raises e \<Rightarrow> [(WARNING, ''Post-connection steps failed''), (ERROR, ''traceback.format_exc()'')]
        | Returns u \<Rightarrow> [])"
  using assms
  by (cases "navigate env"; cases "execute_script env")
     (simp_all add: MarionetteProtocol_setup_def MarionetteProtocol_after_connect_def
        Let_def client_def logger_def send_message_def)

lemma setup_None_iff:
  "MarionetteProtocol_setup env debug_args p = None \<longleftrightarrow>
     wait_for_connection (wait_for_port env) debug_args 0 = None"
  by (simp add: MarionetteProtocol_setup_def Let_def split: option.splits)

text \<open>
  Claim C4 as stated fails: with a debugger attached (\<open>debug_args\<close> is not \<^verbatim>\<open>None\<close>) and
  a port that never opens, \<^verbatim>\<open>MarionetteProtocol.setup\<close> polls forever; it does not return
  and sends neither message.
\<close>

theorem setup_debugger_port_never_opens:
  "MarionetteProtocol_setup dead_client (Some []) MarionetteProtocol_init = None"
  by (simp add: setup_None_iff wait_for_connection_None_iff dead_client_def never_open_def)

text \<open>
  Claim C4, amended. \<^verbatim>\<open>MarionetteProtocol.setup\<close> returns unless a debugger is attached
  and the port never opens. A call that returns has sent exactly one message:
  \<^verbatim>\<open>init_succeeded\<close> when the port opened (outside a debugger: at the first poll), the
  session started and the title script of the post-connect hook ran, \<^verbatim>\<open>init_failed\<close>
  otherwise. \<^verbatim>\<open>MarionetteWebDriverExecutor.setup\<close> sends exactly one message:
  \<^verbatim>\<open>init_succeeded\<close> when the local server started, \<^verbatim>\<open>init_failed\<close> when starting it
  raised.
\<close>

theorem setup_sends_one_message:
  "(MarionetteProtocol_setup env debug_args p = None \<longleftrightarrow>
      debug_args \<noteq> None \<and> (\<forall>i. \<not> wait_for_port env i))
   \<and> (\<forall>p'. MarionetteProtocol_setup env debug_args p = Some p' \<longrightarrow>
        sent p' = sent p @
          [if (debug_args = None \<longrightarrow> wait_for_port env 0) \<and> start_session env = Returns ()
              \<and> execute_script env = Returns ()
           then ''init_succeeded'' else ''init_failed''])
   \<and> sent (MarionetteWebDriverExecutor_setup start w) =
       sent w @ [if start = Returns () then ''init_succeeded'' else ''init_failed'']"
proof (intro conjI allI impI)
  show "MarionetteProtocol_setup env debug_args p = None \<longleftrightarrow>
      debug_args \<noteq> None \<and> (\<forall>i. \<not> wait_for_port env i)"
    by (simp add: setup_None_iff wait_for_connection_None_iff)
next
  fix p'
  assume ret: "MarionetteProtocol_setup env debug_args p = Some p'"
  then obtain r where r: "wait_for_connection (wait_for_port env) debug_args 0 = Some r"
    using setup_None_iff [of env debug_args p] by (cases "wait_for_connection (wait_for_port env) debug_args 0") auto
  obtain success n where sn: "r = (success, n)" by (cases r)
  have success: "success \<longleftrightarrow> (debug_args = None \<longrightarrow> wait_for_port env 0)"
  proof (cases debug_args)
    case None
    with r sn show ?thesis by (simp add: wait_for_connection_first_poll)
  next
    case (Some a)
    from wait_for_connection_success [OF r] have "debug_args = None \<or> fst r" by blast
    with Some sn show ?thesis by simp
  qed
  from setup_sent [of env debug_args success n p] r sn ret success
  show "sent p' = sent p @
          [if (debug_args = None \<longrightarrow> wait_for_port env 0) \<and> start_session env = Returns ()
              \<and> execute_script env = Returns ()
           then ''init_succeeded'' else ''init_failed'']"
    by auto
next
  show "sent (MarionetteWebDriverExecutor_setup start w) =
       sent w @ [if start = Returns () then ''init_succeeded'' else ''init_failed'']"
    by (cases start) (simp_all add: MarionetteWebDriverExecutor_setup_def logger_def send_message_def)
qed

text \<open>
  The amended claim C4 on a healthy browser whose port opens at the third poll: under a
  debugger the call returns and reports success; outside a debugger the first poll has
  failed and the call reports failure.
\<close>

theorem setup_sends_one_message_witness:
  "MarionetteProtocol_setup live_client (Some []) MarionetteProtocol_init \<noteq> None
   \<and> map_option sent (MarionetteProtocol_setup live_client (Some []) MarionetteProtocol_init)
       = Some [''init_succeeded'']
   \<and> map_option sent (MarionetteProtocol_setup live_client None MarionetteProtocol_init)
       = Some [''init_failed'']"
proof -
  have opens: "wait_for_port live_client 2" and first: "\<not> wait_for_port live_client 0"
    by (simp_all add: live_client_def open_at_third_poll_def)
  have calls: "start_session live_client = Returns ()" "execute_script live_client = Returns ()"
    by (simp_all add: live_client_def)
  note thm1 = setup_sends_one_message [of live_client "Some []" MarionetteProtocol_init "Returns ()" "\<lparr>logged = [], sent = []\<rparr>"]
  note thm2 = setup_sends_one_message [of live_client None MarionetteProtocol_init "Returns ()" "\<lparr>logged = [], sent = []\<rparr>"]
  from thm1 opens have 1: "MarionetteProtocol_setup live_client (Some []) MarionetteProtocol_init \<noteq> None"
    by blast
  then obtain p1 where p1: "MarionetteProtocol_setup live_client (Some []) MarionetteProtocol_init = Some p1"
    by blast
  with thm1 calls have 2: "sent p1 = [''init_succeeded'']"
    by (simp add: MarionetteProtocol_init_def)
  from thm2 have "MarionetteProtocol_setup live_client None MarionetteProtocol_init \<noteq> None"
    by simp
  then obtain p2 where p2: "MarionetteProtocol_setup live_client None MarionetteProtocol_init = Some p2"
    by blast
  with thm2 first have 3: "sent p2 = [''init_failed'']"
    by (simp add: MarionetteProtocol_init_def)
  from 1 2 3 p1 p2 show ?thesis by simp
qed

text \<open>
  Claim C5 as stated fails: when loading the runner page fails and the title script then
  runs, the hook's own handler has passed over the failure and \<^verbatim>\<open>setup\<close> sends
  \<^verbatim>\<open>init_succeeded\<close>.
\<close>

theorem navigation_failure_reports_success:
  "map_option sent (MarionetteProtocol_setup unreachable_page_client None MarionetteProtocol_init)
     = Some [''init_succeeded'']
   \<and> navigate unreachable_page_client = Raises (Exn OtherException ''Error loading page'')"
  by (simp add: MarionetteProtocol_setup_def MarionetteProtocol_after_connect_def
        wait_for_connection_first_poll unreachable_page_client_def always_open_def
        MarionetteProtocol_init_def Let_def client_def logger_def send_message_def)

text \<open>
  Claim C5, amended. Once the port is open and the session has started: \<^verbatim>\<open>setup\<close> sends
  \<^verbatim>\<open>init_failed\<close> exactly when the title script of the post-connect hook raises, and then
  the failure is logged (a warning and the traceback); it sends \<^verbatim>\<open>init_succeeded\<close>
  exactly when the title script returns. A failure to load the runner page is logged as
  critical and decides nothing.
\<close>

theorem post_connect_failure:
  assumes "wait_for_connection (wait_for_port env) debug_args 0 = Some (True, n)"
    and "start_session env = Returns ()"
  shows "\<exists>p'. MarionetteProtocol_setup env debug_args p = Some p'
     \<and> (sent p' = sent p @ [''init_failed''] \<longleftrightarrow> (\<exists>e. execute_script env = Raises e))
     \<and> (sent p' = sent p @ [''init_succeeded''] \<longleftrightarrow> execute_script env = Returns ())
     \<and> ((\<exists>e. execute_script env = Raises e) \<longrightarrow>
          (WARNING, ''Post-connection steps failed'') \<in> set (logged p')
          \<and> (ERROR, ''traceback.format_exc()'') \<in> set (logged p'))
     \<and> ((\<exists>e. navigate env = Raises e) \<longrightarrow>
          (CRITICAL, ''Loading initial page %s failed.'') \<in> set (logged p'))"
proof -
  from setup_sent [OF assms(1), of p] obtain p' where
    p': "MarionetteProtocol_setup env debug_args p = Some p'" and
    s: "sent p' = sent p @
       [if True \<and> start_session env = Returns () \<and> execute_script env = Returns ()
        then ''init_succeeded'' else ''init_failed'']"
    by blast
  from setup_logged_hook [OF assms, of p] p' have
    l: "logged p' = logged p @
       [(DEBUG, ''Connecting to marionette on port %i''),
        (DEBUG, ''Waiting for Marionette connection''),
        (DEBUG, ''Starting Marionette session''),
        (DEBUG, ''Marionette session started''),
        (DEBUG, ''Loading %s'')] @
       (case navigate env of Raises e \<Rightarrow> [(CRITICAL, ''Loading initial page %s failed.'')] | Returns u \<Rightarrow> []) @
       (case execute_script env of
          Raises e \<Rightarrow> [(WARNING, ''Post-connection steps failed''), (ERROR, ''traceback.format_exc()'')]
        | Returns u \<Rightarrow> [])"
    by simp
  have 1: "sent p' = sent p @ [''init_failed''] \<longleftrightarrow> (\<exists>e. execute_script env = Raises e)"
    using s assms(2) by (cases "execute_script env") simp_all
  have 2: "sent p' = sent p @ [''init_succeeded''] \<longleftrightarrow> execute_script env = Returns ()"
    using s assms(2) by (cases "execute_script env") simp_all
  have 3: "(\<exists>e. execute_script env = Raises e) \<longrightarrow>
          (WARNING, ''Post-connection steps failed'') \<in> set (logged p')
          \<and> (ERROR, ''traceback.format_exc()'') \<in> set (logged p')"
    using l by (cases "execute_script env") simp_all
  have 4: "(\<exists>e. navigate env = Raises e) \<longrightarrow>
          (CRITICAL, ''Loading initial page %s failed.'') \<in> set (logged p')"
    using l by (cases "navigate env") simp_all
  from p' 1 2 3 4 show ?thesis by blast
qed

text \<open>The amended claim C5 on a browser whose title script fails.\<close>

theorem post_connect_failure_witness:
  "wait_for_connection (wait_for_port untitled_client) None 0 = Some (True, Suc 0)
   \<and> start_session untitled_client = Returns ()
   \<and> execute_script untitled_client = Raises (Exn OtherException ''JavaScript error'')
   \<and> map_option sent (MarionetteProtocol_setup untitled_client None MarionetteProtocol_init)
       = Some [''init_failed'']"
proof -
  have a: "wait_for_connection (wait_for_port untitled_client) None 0 = Some (True, Suc 0)"
    by (simp add: wait_for_connection_first_poll untitled_client_def always_open_def)
  have b: "start_session untitled_client = Returns ()"
    and c: "execute_script untitled_client = Raises (Exn OtherException ''JavaScript error'')"
    by (simp_all add: untitled_client_def)
  from post_connect_failure [OF a b, of MarionetteProtocol_init] c
  have "map_option sent (MarionetteProtocol_setup untitled_client None MarionetteProtocol_init)
       = Some [''init_failed'']"
    by (auto simp: MarionetteProtocol_init_def)
  with a b c show ?thesis by simp
qed

subsection \<open>Teardown and liveness\<close>

lemma teardown_bound:
  "marionette p \<noteq> Unbound \<Longrightarrow>
   MarionetteProtocol_teardown env p =
     Inr (p\<lparr>marionette := Unbound,
            client_calls := (if marionette p = BoundClient then client_calls p @ [DeleteSession]
                             else client_calls p)\<rparr>)"
  by (cases "marionette p"; cases "delete_session env")
     (simp_all add: MarionetteProtocol_teardown_def client_def)

lemma teardown_unbound:
  "marionette p = Unbound \<Longrightarrow>
   MarionetteProtocol_teardown env p = Inl (Exn AttributeError ''marionette'')"
  by (simp add: MarionetteProtocol_teardown_def client_def)

text \<open>
  Claim C7 as stated fails: \<^verbatim>\<open>teardown\<close> called on a protocol object that was already
  torn down raises \<^verbatim>\<open>AttributeError\<close>.
\<close>

theorem teardown_raises_after_teardown:
  "MarionetteProtocol_teardown dead_client MarionetteProtocol_init
     = Inr (MarionetteProtocol_init\<lparr>marionette := Unbound\<rparr>)
   \<and> MarionetteProtocol_teardown dead_client (MarionetteProtocol_init\<lparr>marionette := Unbound\<rparr>)
     = Inl (Exn AttributeError ''marionette'')"
  by (simp add: teardown_bound teardown_unbound MarionetteProtocol_init_def)

text \<open>
  Claim C7, amended. On a protocol object whose \<^verbatim>\<open>marionette\<close> attribute is bound (to
  \<^verbatim>\<open>None\<close> or to a client), \<^verbatim>\<open>teardown\<close> does not raise whatever \<^verbatim>\<open>delete_session\<close>
  does, also when no client was ever connected; it logs and sends nothing, calls
  \<^verbatim>\<open>delete_session\<close> once when there is a client, and deletes the attribute afterwards.
\<close>

theorem teardown_swallows_session_failures:
  assumes "marionette p \<noteq> Unbound"
  shows "\<exists>p'. MarionetteProtocol_teardown env p = Inr p'
     \<and> marionette p' = Unbound \<and> logged p' = logged p \<and> sent p' = sent p
     \<and> client_calls p' =
         (if marionette p = BoundClient then client_calls p @ [DeleteSession] else client_calls p)"
  using assms by (simp add: teardown_bound)

text \<open>
  The amended claim C7 on a protocol object that was never set up, with a dead browser.
\<close>

theorem teardown_swallows_session_failures_witness:
  "marionette MarionetteProtocol_init \<noteq> Unbound
   \<and> (\<exists>p'. MarionetteProtocol_teardown dead_client MarionetteProtocol_init = Inr p'
        \<and> marionette p' = Unbound \<and> client_calls p' = [])"
proof -
  have a: "marionette MarionetteProtocol_init \<noteq> Unbound"
    by (simp add: MarionetteProtocol_init_def)
  from teardown_swallows_session_failures [OF a, of dead_client] a show ?thesis
    by (auto simp: MarionetteProtocol_init_def)
qed

text \<open>
  Claim C10. \<^verbatim>\<open>teardown\<close> is not idempotent: after a call that returned, the attribute
  is deleted, and the next call raises \<^verbatim>\<open>AttributeError\<close> from the \<^verbatim>\<open>del\<close> statement
  outside the guard, whatever the client does.
\<close>

theorem teardown_not_idempotent:
  assumes "MarionetteProtocol_teardown env p = Inr p'"
  shows "MarionetteProtocol_teardown env' p' = Inl (Exn AttributeError ''marionette'')"
proof -
  from assms have "marionette p \<noteq> Unbound"
    by (auto simp: teardown_unbound)
  with assms have "marionette p' = Unbound"
    by (auto simp: teardown_bound)
  then show ?thesis by (rule teardown_unbound)
qed

text \<open>Claim C10 on a connected protocol object: the first call returns, the second raises.\<close>

theorem teardown_not_idempotent_witness:
  "MarionetteProtocol_teardown live_client (MarionetteProtocol_init\<lparr>marionette := BoundClient\<rparr>)
     = Inr (MarionetteProtocol_init\<lparr>marionette := Unbound, client_calls := [DeleteSession]\<rparr>)
   \<and> MarionetteProtocol_teardown live_client
       (MarionetteProtocol_init\<lparr>marionette := Unbound, client_calls := [DeleteSession]\<rparr>)
     = Inl (Exn AttributeError ''marionette'')"
proof -
  have a: "MarionetteProtocol_teardown live_client (MarionetteProtocol_init\<lparr>marionette := BoundClient\<rparr>)
     = Inr (MarionetteProtocol_init\<lparr>marionette := Unbound, client_calls := [DeleteSession]\<rparr>)"
    by (simp add: teardown_bound MarionetteProtocol_init_def)
  from teardown_not_idempotent [OF a, of live_client] a show ?thesis by simp
qed

text \<open>
  Claim C8. \<^verbatim>\<open>is_alive\<close> is true exactly when fetching \<^verbatim>\<open>current_window_handle\<close> returns,
  and false exactly when the fetch raises; the fetch returns only if a client is bound
  and it answers.
\<close>

theorem is_alive_iff_probe_returns:
  "(MarionetteProtocol_is_alive env p \<longleftrightarrow>
      (\<exists>h. fst (client CurrentWindowHandle (current_window_handle env) p) = Returns h))
   \<and> (\<not> MarionetteProtocol_is_alive env p \<longleftrightarrow>
      (\<exists>e. fst (client CurrentWindowHandle (current_window_handle env) p) = Raises e))
   \<and> (MarionetteProtocol_is_alive env p \<longleftrightarrow>
      marionette p = BoundClient \<and> (\<exists>h. current_window_handle env = Returns h))"
  by (cases "marionette p"; cases "current_window_handle env")
     (simp_all add: MarionetteProtocol_is_alive_def client_def)

end
